theory Spec2Isabelle
  imports Complex_Main "HOL-Library.List_Lexorder"
begin


section \<open>Python strings\<close>

text \<open>
  A Python \<open>str\<close> is a sequence of Unicode code points; \<open>len\<close>, indexing, slicing and
  the \<open>re\<close> module all count code points. The model is a list of integers. ASCII
  literals of the source are written with \<open>ascii\<close>; Hangul literals are written as
  their code points, with the romanised reading in a comment.
\<close>

type_synonym pystr = "int list"

definition ascii :: "string \<Rightarrow> pystr" where
  "ascii s = map of_char s"

text \<open>\<open>str.isspace\<close> per character, which is also what \<open>\s\<close> matches in a \<open>str\<close> pattern.\<close>

definition is_space :: "int \<Rightarrow> bool" where
  "is_space c \<longleftrightarrow> c \<in> set [9, 10, 11, 12, 13, 28, 29, 30, 31, 32, 133, 160, 5760,
     8192, 8193, 8194, 8195, 8196, 8197, 8198, 8199, 8200, 8201, 8202,
     8232, 8233, 8239, 8287, 12288]"

text \<open>
  \<open>\d\<close> in a \<open>str\<close> pattern matches every character of Unicode category Nd. The
  category is made of blocks of ten consecutive code points with the values 0 to 9;
  \<open>nd_zeros\<close> lists the zero of each block (Unicode 14, the tables of CPython 3.11).
\<close>

definition nd_zeros :: "int list" where
  "nd_zeros = [48, 1632, 1776, 1984, 2406, 2534, 2662, 2790, 2918, 3046, 3174, 3302,
     3430, 3558, 3664, 3792, 3872, 4160, 4240, 6112, 6160, 6470, 6608, 6784, 6800, 6992,
     7088, 7232, 7248, 42528, 43216, 43264, 43472, 43504, 43600, 44016, 65296, 66720,
     68912, 69734, 69872, 69942, 70096, 70384, 70736, 70864, 71248, 71360, 71472, 71904,
     72016, 72784, 73040, 73120, 92768, 92864, 93008, 120782, 120792, 120802, 120812,
     120822, 123200, 123632, 125264, 130032]"

definition digit_value :: "int \<Rightarrow> nat option" where
  "digit_value c = (case filter (\<lambda>z. z \<le> c \<and> c < z + 10) nd_zeros of
                      [] \<Rightarrow> None | z # _ \<Rightarrow> Some (nat (c - z)))"

definition is_digit :: "int \<Rightarrow> bool" where
  "is_digit c \<longleftrightarrow> digit_value c \<noteq> None"

definition is_ascii_digit :: "int \<Rightarrow> bool" where
  "is_ascii_digit c \<longleftrightarrow> 48 \<le> c \<and> c \<le> 57"

definition is_ascii_upper :: "int \<Rightarrow> bool" where
  "is_ascii_upper c \<longleftrightarrow> 65 \<le> c \<and> c \<le> 90"

text \<open>The class \<open>[0-9A-Za-z\<dots>]\<close> with the Hangul syllables U+AC00 to U+D7A3.\<close>

definition is_alnum_hangul :: "int \<Rightarrow> bool" where
  "is_alnum_hangul c \<longleftrightarrow> (48 \<le> c \<and> c \<le> 57) \<or> (65 \<le> c \<and> c \<le> 90) \<or>
     (97 \<le> c \<and> c \<le> 122) \<or> (44032 \<le> c \<and> c \<le> 55203)"

text \<open>\<open>int(s)\<close> and \<open>float(s)\<close> on a string of decimal digits: the value read in base ten.\<close>

definition digits_value :: "pystr \<Rightarrow> nat" where
  "digits_value s = foldl (\<lambda>acc c. 10 * acc + (case digit_value c of Some d \<Rightarrow> d | None \<Rightarrow> 0)) 0 s"

text \<open>\<open>str.strip()\<close>, \<open>str.lstrip(chars)\<close>, \<open>str.replace\<close>, \<open>in\<close>, \<open>startswith\<close>, \<open>endswith\<close>.\<close>

definition lstrip_ws :: "pystr \<Rightarrow> pystr" where
  "lstrip_ws s = dropWhile is_space s"

definition strip :: "pystr \<Rightarrow> pystr" where
  "strip s = rev (dropWhile is_space (rev (dropWhile is_space s)))"

definition lstrip_chars :: "int list \<Rightarrow> pystr \<Rightarrow> pystr" where
  "lstrip_chars cs s = dropWhile (\<lambda>c. c \<in> set cs) s"

fun startswith :: "pystr \<Rightarrow> pystr \<Rightarrow> bool" where
  "startswith s [] = True"
| "startswith [] (p # ps) = False"
| "startswith (x # xs) (p # ps) = (x = p \<and> startswith xs ps)"

definition endswith :: "pystr \<Rightarrow> pystr \<Rightarrow> bool" where
  "endswith s p = startswith (rev s) (rev p)"

fun contains :: "pystr \<Rightarrow> pystr \<Rightarrow> bool" where
  "contains [] p = (p = [])"
| "contains (x # xs) p = (startswith (x # xs) p \<or> contains xs p)"

text \<open>
  \<open>s.replace(old, new)\<close>: the occurrences of \<open>old\<close> are replaced from left to right
  without overlap; an empty \<open>old\<close> matches before every character and at the end.
\<close>

function replace_nonempty :: "pystr \<Rightarrow> pystr \<Rightarrow> pystr \<Rightarrow> pystr" where
  "replace_nonempty old new [] = []"
| "replace_nonempty old new (x # xs) =
     (if old \<noteq> [] \<and> startswith (x # xs) old
      then new @ replace_nonempty old new (drop (length old) (x # xs))
      else x # replace_nonempty old new xs)"
  by pat_completeness auto
termination
  by (relation "measure (\<lambda>(old, new, s). length s)") auto

definition replace :: "pystr \<Rightarrow> pystr \<Rightarrow> pystr \<Rightarrow> pystr" where
  "replace s old new =
     (if old = [] then new @ concat (map (\<lambda>c. c # new) s) else replace_nonempty old new s)"

text \<open>The \<open>:02d\<close> format of a non-negative integer.\<close>

fun decimal_fuel :: "nat \<Rightarrow> nat \<Rightarrow> pystr" where
  "decimal_fuel 0 n = []"
| "decimal_fuel (Suc k) n =
     (if n < 10 then [48 + int n] else decimal_fuel k (n div 10) @ [48 + int (n mod 10)])"

definition decimal :: "nat \<Rightarrow> pystr" where
  "decimal n = decimal_fuel (Suc n) n"

definition fmt02d :: "nat \<Rightarrow> pystr" where
  "fmt02d n = (let d = decimal n in replicate (2 - length d) 48 @ d)"

section \<open>Regular expressions\<close>

text \<open>
  The patterns of the source are sequences of literals, character classes, greedy
  repetitions of a class, optional parts and capturing groups. \<open>rmatch r s\<close> lists the
  ways \<open>r\<close> matches a prefix of \<open>s\<close>, each with its groups and the rest of the input, in
  the order in which the backtracking matcher of \<open>re\<close> tries them; the first is the match
  Python reports. \<open>Rep p m n\<close> is \<open>p{m,n}\<close> (\<open>None\<close>: no upper bound), \<open>Eol\<close> is \<open>$\<close>
  without \<open>MULTILINE\<close>: the end of the string, or just before a final newline.
\<close>

datatype regex =
    Lit int
  | Cls "int \<Rightarrow> bool"
  | Rep "int \<Rightarrow> bool" nat "nat option"
  | Cat regex regex
  | Opt regex
  | Grp regex
  | Eol

fun ngroups :: "regex \<Rightarrow> nat" where
  "ngroups (Cat a b) = ngroups a + ngroups b"
| "ngroups (Opt a) = ngroups a"
| "ngroups (Grp a) = Suc (ngroups a)"
| "ngroups r = 0"

type_synonym groups = "pystr option list"

fun rmatch :: "regex \<Rightarrow> pystr \<Rightarrow> (groups \<times> pystr) list" where
  "rmatch (Lit c) s = (case s of [] \<Rightarrow> [] | x # xs \<Rightarrow> if x = c then [([], xs)] else [])"
| "rmatch (Cls p) s = (case s of [] \<Rightarrow> [] | x # xs \<Rightarrow> if p x then [([], xs)] else [])"
| "rmatch (Rep p m n) s =
     (let run = length (takeWhile p s);
          hi = (case n of None \<Rightarrow> run | Some k \<Rightarrow> min k run)
      in map (\<lambda>k. ([], drop k s)) (rev [m ..< Suc hi]))"
| "rmatch (Cat a b) s =
     concat (map (\<lambda>(g1, s1). map (\<lambda>(g2, s2). (g1 @ g2, s2)) (rmatch b s1)) (rmatch a s))"
| "rmatch (Opt a) s = rmatch a s @ [(replicate (ngroups a) None, s)]"
| "rmatch (Grp a) s =
     map (\<lambda>(g, s'). (Some (take (length s - length s') s) # g, s')) (rmatch a s)"
| "rmatch Eol s = (if s = [] \<or> s = [10] then [([], s)] else [])"

text \<open>A match object: start, end and groups (\<open>group(1)\<close> is the head of the list).\<close>

type_synonym match = "nat \<times> nat \<times> groups"

definition m_start :: "match \<Rightarrow> nat" where "m_start m = fst m"
definition m_end :: "match \<Rightarrow> nat" where "m_end m = fst (snd m)"

definition group :: "match \<Rightarrow> nat \<Rightarrow> pystr option" where
  "group m k = (let gs = snd (snd m) in if 0 < k \<and> k \<le> length gs then gs ! (k - 1) else None)"

text \<open>\<open>pattern.match(s)\<close> matches at position 0 only; \<open>pattern.search(s)\<close> takes the leftmost
  position at which the pattern matches.\<close>

definition re_match :: "regex \<Rightarrow> pystr \<Rightarrow> match option" where
  "re_match r s = (case rmatch r s of [] \<Rightarrow> None
                    | (g, s') # _ \<Rightarrow> Some (0, length s - length s', g))"

fun search_from :: "regex \<Rightarrow> pystr \<Rightarrow> nat \<Rightarrow> match option" where
  "search_from r [] i = (case rmatch r [] of [] \<Rightarrow> None | (g, s') # _ \<Rightarrow> Some (i, i, g))"
| "search_from r (x # xs) i =
     (case rmatch r (x # xs) of
        [] \<Rightarrow> search_from r xs (Suc i)
      | (g, s') # _ \<Rightarrow> Some (i, i + (length (x # xs) - length s'), g))"

definition re_search :: "regex \<Rightarrow> pystr \<Rightarrow> match option" where
  "re_search r s = search_from r s 0"

text \<open>
  \<open>finditer\<close>, on which \<open>findall\<close> and \<open>sub\<close> rest: the matches from left to right without
  overlap. After an empty match the scan stays at the position and asks for a
  non-empty match there (\<open>adv\<close>), as \<open>re\<close> does since Python 3.7.
\<close>

function finditer_from :: "regex \<Rightarrow> pystr \<Rightarrow> nat \<Rightarrow> bool \<Rightarrow> match list" where
  "finditer_from r s i adv =
     (case List.find (\<lambda>(g, s'). \<not> adv \<or> length s' < length s) (rmatch r s) of
        Some (g, s') \<Rightarrow>
          (if length s' < length s
           then (i, i + (length s - length s'), g)
                  # finditer_from r s' (i + (length s - length s')) False
           else (i, i, g) # finditer_from r s i True)
      | None \<Rightarrow> (case s of [] \<Rightarrow> [] | x # xs \<Rightarrow> finditer_from r xs (Suc i) False))"
  by pat_completeness auto
termination
  by (relation "measure (\<lambda>(r, s, i, adv). 2 * length s + (if adv then 0 else 1))")
     (auto simp: find_Some_iff)

definition finditer :: "regex \<Rightarrow> pystr \<Rightarrow> match list" where
  "finditer r s = finditer_from r s 0 False"

text \<open>\<open>findall\<close> of a pattern with one group returns the group of every match, of a
  pattern with no group the matched text.\<close>

definition findall_group1 :: "regex \<Rightarrow> pystr \<Rightarrow> pystr list" where
  "findall_group1 r s = map (\<lambda>m. case group m 1 of Some g \<Rightarrow> g | None \<Rightarrow> []) (finditer r s)"

definition findall_whole :: "regex \<Rightarrow> pystr \<Rightarrow> pystr list" where
  "findall_whole r s = map (\<lambda>m. take (m_end m - m_start m) (drop (m_start m) s)) (finditer r s)"

fun sub_build :: "pystr \<Rightarrow> pystr \<Rightarrow> nat \<Rightarrow> match list \<Rightarrow> pystr" where
  "sub_build s repl pos [] = drop pos s"
| "sub_build s repl pos (m # ms) =
     take (m_start m - pos) (drop pos s) @ repl @ sub_build s repl (m_end m) ms"

definition re_sub :: "regex \<Rightarrow> pystr \<Rightarrow> pystr \<Rightarrow> pystr" where
  "re_sub r repl s = sub_build s repl 0 (finditer r s)"

text \<open>Shorthands for the pieces the patterns are made of.\<close>

definition dgt :: regex where "dgt = Cls is_digit"
definition ws_star :: regex where "ws_star = Rep is_space 0 None"

fun cat :: "regex list \<Rightarrow> regex" where
  "cat [] = Rep (\<lambda>c. False) 0 (Some 0)"
| "cat [r] = r"
| "cat (r # rs) = Cat r (cat rs)"

section \<open>Warnings\<close>

datatype WarningSeverity = INFO | WARN | ERROR

text \<open>
  Values of a warning's context (\<open>Dict[str, Any]\<close>): the source stores strings and
  numbers. Python compares an \<open>int\<close> and a \<open>float\<close> by value, so both are \<open>CNum\<close>.
\<close>

datatype cval = CStr pystr | CNum real

text \<open>
  A dict is an association list in insertion order with distinct keys. A message is
  kept as the parts of its f-string: literal text and interpolated values.
\<close>

type_synonym pydict = "(pystr \<times> cval) list"

datatype mpart = MText pystr | MVal cval

type_synonym message = "mpart list"

record Warning =
  wcode :: pystr
  wseverity :: WarningSeverity
  wmessage :: message
  wcontext :: "pydict option"

definition dict_get :: "pydict \<Rightarrow> pystr \<Rightarrow> cval option" where
  "dict_get dct k = map_of dct k"

definition dict_setdefault :: "pydict \<Rightarrow> pystr \<Rightarrow> cval \<Rightarrow> pydict" where
  "dict_setdefault dct k v = (if k \<in> set (map fst dct) then dct else dct @ [(k, v)])"

text \<open>Truthiness of a context value: a non-empty string, a non-zero number.\<close>

fun truthy :: "cval \<Rightarrow> bool" where
  "truthy (CStr s) = (s \<noteq> [])"
| "truthy (CNum x) = (x \<noteq> 0)"

text \<open>\<open>sorted(context.items())\<close>: the keys of a dict are distinct, so the order is that of the keys.\<close>

definition warning_key :: "Warning \<Rightarrow> pystr \<times> pydict option" where
  "warning_key w = (case wcontext w of
                      None \<Rightarrow> (wcode w, None)
                    | Some c \<Rightarrow> (wcode w, Some (sort_key fst c)))"

definition WARNING_CODE_MAP :: "(pystr \<times> pystr) list" where
  "WARNING_CODE_MAP =
    [(ascii ''input_json_fallback'', ascii ''INP-FMT-001''),
     (ascii ''missing_pages_and_text'', ascii ''INP-MISS-002''),
     (ascii ''noise_lines_removed'', ascii ''PRE-CHK-001''),
     (ascii ''label_empty_value'', ascii ''PRS-MISS-001''),
     (ascii ''gross_inferred_from_time_weight'', ascii ''PRS-MAP-001''),
     (ascii ''tare_inferred_from_time_weight'', ascii ''PRS-MAP-002''),
     (ascii ''net_inferred_from_gross_tare'', ascii ''VAL-CHK-002''),
     (ascii ''net_mismatch'', ascii ''VAL-CHK-001''),
     (ascii ''time_order_reversed'', ascii ''VAL-CHK-003''),
     (ascii ''negative_weight'', ascii ''VAL-CHK-004''),
     (ascii ''weight_exceeds_limit'', ascii ''VAL-CHK-005'')]"

text \<open>The messages of the source, as code points.\<close>

definition msg_noise_pre :: pystr where
  "msg_noise_pre = [45432, 51060, 51592, 32, 46972, 51064, 32]"
definition msg_noise_post :: pystr where
  "msg_noise_post = [44060, 32, 51228, 44144]"
definition msg_noise :: pystr where
  "msg_noise = [45432, 51060, 51592, 32, 46972, 51064, 32, 51228, 44144]"
definition msg_json_fallback :: pystr where
  "msg_json_fallback = [51077, 47141, 32, 74, 83, 79, 78, 32, 54028, 49905, 32, 49892, 54056,
     47196, 32, 53581, 49828, 53944, 32, 44592, 48152, 32, 54028, 49905, 32, 49688, 54665]"
definition msg_missing_pages :: pystr where
  "msg_missing_pages = [51077, 47141, 50640, 32, 112, 97, 103, 101, 115, 47, 116, 101, 120,
     116, 44032, 32, 50630, 50612, 32, 46972, 51064, 32, 52628, 52636, 32, 49892, 54056]"
definition msg_label_pre :: pystr where
  "msg_label_pre = [46972, 48296, 32, 44050, 32, 45572, 46973, 58, 32]"
definition msg_label :: pystr where
  "msg_label = [46972, 48296, 32, 44050, 32, 45572, 46973]"
definition msg_gross_inferred :: pystr where
  "msg_gross_inferred = [52509, 51473, 47049, 51012, 32, 49884, 44036, 47, 47924, 44172, 32,
     54056, 53556, 51004, 47196, 32, 52628, 51221]"
definition msg_tare_inferred :: pystr where
  "msg_tare_inferred = [44277, 52264, 51473, 47049, 51012, 32, 49884, 44036, 47, 47924, 44172,
     32, 54056, 53556, 51004, 47196, 32, 52628, 51221]"
definition msg_net_inferred :: pystr where
  "msg_net_inferred = [49892, 51473, 47049, 51012, 32, 52509, 47, 44277, 52264, 32, 52264,
     51060, 47196, 32, 44228, 49328]"
definition msg_net_mismatch :: pystr where
  "msg_net_mismatch = [52509, 51473, 47049, 45, 44277, 52264, 51473, 47049, 44284, 32, 49892,
     51473, 47049, 32, 48520, 51068, 52824]"
definition msg_time_pre :: pystr where
  "msg_time_pre = [51077, 52264, 32, 49884, 44036, 51060, 32, 52636, 52264, 32, 49884, 44036,
     48372, 45796, 32, 45734, 51020, 58, 32]"
definition msg_time :: pystr where
  "msg_time = [51077, 52264, 47, 52636, 52264, 32, 49884, 44036, 32, 49692, 49436, 32, 51060,
     49345]"
definition msg_negative_pre :: pystr where
  "msg_negative_pre = [51020, 49688, 32, 47924, 44172, 32, 44048, 51648, 58, 32]"
definition msg_exceeds_pre :: pystr where
  "msg_exceeds_pre = [47924, 44172, 32, 48276, 50948, 32, 52488, 44284, 58, 32]"

definition default_warning_info :: "pystr \<Rightarrow> pydict \<Rightarrow> WarningSeverity \<times> message" where
  "default_warning_info code context =
    (if code = ascii ''noise_lines_removed'' then
       (case dict_get context (ascii ''count'') of
          Some count \<Rightarrow> (INFO, [MText msg_noise_pre, MVal count, MText msg_noise_post])
        | None \<Rightarrow> (INFO, [MText msg_noise]))
     else if code = ascii ''input_json_fallback'' then (WARN, [MText msg_json_fallback])
     else if code = ascii ''missing_pages_and_text'' then (ERROR, [MText msg_missing_pages])
     else if code = ascii ''label_empty_value'' then
       (case dict_get context (ascii ''label'') of
          Some label \<Rightarrow> (if truthy label then (WARN, [MText msg_label_pre, MVal label])
                         else (WARN, [MText msg_label]))
        | None \<Rightarrow> (WARN, [MText msg_label]))
     else if code = ascii ''gross_inferred_from_time_weight'' then (WARN, [MText msg_gross_inferred])
     else if code = ascii ''tare_inferred_from_time_weight'' then (WARN, [MText msg_tare_inferred])
     else if code = ascii ''net_inferred_from_gross_tare'' then (WARN, [MText msg_net_inferred])
     else if code = ascii ''net_mismatch'' then (ERROR, [MText msg_net_mismatch])
     else if code = ascii ''time_order_reversed'' then
       (case (dict_get context (ascii ''time_in''), dict_get context (ascii ''time_out'')) of
          (Some time_in, Some time_out) \<Rightarrow>
            (if truthy time_in \<and> truthy time_out
             then (WARN, [MText msg_time_pre, MVal time_in, MText (ascii ''>''), MVal time_out])
             else (WARN, [MText msg_time]))
        | _ \<Rightarrow> (WARN, [MText msg_time]))
     else if code = ascii ''negative_weight'' then
       (ERROR, [MText msg_negative_pre,
                MVal (case dict_get context (ascii ''field'') of
                        Some f \<Rightarrow> f | None \<Rightarrow> CStr (ascii ''unknown''))])
     else if code = ascii ''weight_exceeds_limit'' then
       (WARN, [MText msg_exceeds_pre,
               MVal (case dict_get context (ascii ''field'') of
                       Some f \<Rightarrow> f | None \<Rightarrow> CStr (ascii ''unknown''))])
     else (WARN, [MText code]))"

text \<open>The pattern \<open>^[A-Z]{3}-[A-Z]{3}-\d{3}$\<close>, tried with \<open>re.match\<close>.\<close>

definition std_code_pattern :: regex where
  "std_code_pattern = cat [Rep is_ascii_upper 3 (Some 3), Lit 45, Rep is_ascii_upper 3 (Some 3),
                           Lit 45, Rep is_digit 3 (Some 3), Eol]"

definition standardize_warning_code :: "pystr \<Rightarrow> pystr" where
  "standardize_warning_code code =
     (if re_match std_code_pattern code \<noteq> None then code
      else (case map_of WARNING_CODE_MAP code of Some c \<Rightarrow> c | None \<Rightarrow> code))"

text \<open>
  \<open>add_warning\<close> appends to the list it is given; the model returns the new list. The
  caller's \<open>context\<close>, \<open>severity\<close> and \<open>message\<close> are optional; an empty message counts
  as absent (\<open>message or default_message\<close>), and an empty context is stored as \<open>None\<close>.
\<close>

definition add_warning ::
  "Warning list \<Rightarrow> pystr \<Rightarrow> pydict option \<Rightarrow> WarningSeverity option \<Rightarrow> pystr option
     \<Rightarrow> Warning list" where
  "add_warning warnings code context severity message =
    (let context0 = (case context of None \<Rightarrow> [] | Some c \<Rightarrow> c);
         dflt = default_warning_info code context0;
         severity' = (case severity of Some s \<Rightarrow> s | None \<Rightarrow> fst dflt);
         message' = (case message of
                       Some m \<Rightarrow> (if m \<noteq> [] then [MText m] else snd dflt)
                     | None \<Rightarrow> snd dflt);
         standardized = standardize_warning_code code;
         context1 = (if standardized \<noteq> code
                     then dict_setdefault context0 (ascii ''legacy_code'') (CStr code)
                     else context0);
         warning = \<lparr>wcode = standardized, wseverity = severity', wmessage = message',
                    wcontext = (if context1 = [] then None else Some context1)\<rparr>;
         candidate_key = warning_key warning
     in if list_all (\<lambda>existing. warning_key existing \<noteq> candidate_key) warnings
        then warnings @ [warning] else warnings)"

fun has_warning :: "Warning list \<Rightarrow> pystr \<Rightarrow> bool" where
  "has_warning [] code = False"
| "has_warning (warning # rest) code =
     (if wcode warning = standardize_warning_code code then True
      else if (case wcontext warning of
                 None \<Rightarrow> False
               | Some c \<Rightarrow> c \<noteq> [] \<and> dict_get c (ascii ''legacy_code'') = Some (CStr code))
      then True
      else has_warning rest code)"

section \<open>The record and its finalizer\<close>

text \<open>
  Weights, coordinates and the confidence are Python floats. The model takes them as
  real numbers: a digit string is read as its exact value and the arithmetic is exact.
\<close>

record ParsedRecord =
  doc_type :: pystr
  weigh_date :: "pystr option"
  weigh_time_in :: "pystr option"
  weigh_time_out :: "pystr option"
  serial_no :: "pystr option"
  vehicle_no :: "pystr option"
  partner_name :: "pystr option"
  item_name :: "pystr option"
  direction :: "pystr option"
  gross_weight_kg :: "real option"
  tare_weight_kg :: "real option"
  net_weight_kg :: "real option"
  deduction_weight_kg :: "real option"
  issuer :: "pystr option"
  timestamp :: "pystr option"
  gps :: "(real \<times> real) option"
  raw_text :: pystr
  parse_confidence :: real
  warnings :: "Warning list"

definition empty_record :: ParsedRecord where
  "empty_record = \<lparr>doc_type = ascii ''unknown'', weigh_date = None, weigh_time_in = None,
     weigh_time_out = None, serial_no = None, vehicle_no = None, partner_name = None,
     item_name = None, direction = None, gross_weight_kg = None, tare_weight_kg = None,
     net_weight_kg = None, deduction_weight_kg = None, issuer = None, timestamp = None,
     gps = None, raw_text = [], parse_confidence = 0, warnings = []\<rparr>"

text \<open>Truthiness of an optional float and of an optional string.\<close>

definition truthy_float :: "real option \<Rightarrow> bool" where
  "truthy_float x = (case x of None \<Rightarrow> False | Some v \<Rightarrow> v \<noteq> 0)"

definition truthy_str :: "pystr option \<Rightarrow> bool" where
  "truthy_str x = (case x of None \<Rightarrow> False | Some s \<Rightarrow> s \<noteq> [])"

definition NET_WEIGHT_TOLERANCE_KG :: real where "NET_WEIGHT_TOLERANCE_KG = 1"
definition MAX_WEIGHT_KG :: real where "MAX_WEIGHT_KG = 100000"
definition MIN_WEIGHT_KG :: real where "MIN_WEIGHT_KG = 0"

definition LABEL_INFERENCE :: real where "LABEL_INFERENCE = 5 / 100"
definition FIELD_MISSING :: real where "FIELD_MISSING = 5 / 100"
definition LOGIC_MISMATCH :: real where "LOGIC_MISMATCH = 1 / 10"
definition NET_CALC_INFERENCE :: real where "NET_CALC_INFERENCE = 3 / 100"

text \<open>One round of the loop of \<open>validate_weights\<close>.\<close>

definition check_weight :: "Warning list \<Rightarrow> pystr \<times> real option \<Rightarrow> Warning list" where
  "check_weight ws fv =
    (case snd fv of
       None \<Rightarrow> ws
     | Some v \<Rightarrow>
        (let ws1 = (if v < MIN_WEIGHT_KG
                    then add_warning ws (ascii ''negative_weight'')
                           (Some [(ascii ''field'', CStr (fst fv)), (ascii ''value'', CNum v)])
                           (Some ERROR) None
                    else ws)
         in if v > MAX_WEIGHT_KG
            then add_warning ws1 (ascii ''weight_exceeds_limit'')
                   (Some [(ascii ''field'', CStr (fst fv)), (ascii ''value'', CNum v)])
                   (Some WARN) None
            else ws1))"

definition weight_fields :: "ParsedRecord \<Rightarrow> (pystr \<times> real option) list" where
  "weight_fields r =
     [(ascii ''gross_weight_kg'', gross_weight_kg r),
      (ascii ''tare_weight_kg'', tare_weight_kg r),
      (ascii ''net_weight_kg'', net_weight_kg r),
      (ascii ''deduction_weight_kg'', deduction_weight_kg r)]"

definition validate_weights :: "ParsedRecord \<Rightarrow> Warning list \<Rightarrow> Warning list" where
  "validate_weights r ws = foldl check_weight ws (weight_fields r)"

text \<open>Strings compare by code point, as lists do in the lexicographic order.\<close>

definition validate_time_order :: "ParsedRecord \<Rightarrow> Warning list \<Rightarrow> Warning list" where
  "validate_time_order r ws =
    (if truthy_str (weigh_time_in r) \<and> truthy_str (weigh_time_out r) then
       (if the (weigh_time_in r) > the (weigh_time_out r)
        then add_warning ws (ascii ''time_order_reversed'')
               (Some [(ascii ''time_in'', CStr (the (weigh_time_in r))),
                      (ascii ''time_out'', CStr (the (weigh_time_out r)))])
               None None
        else ws)
     else ws)"

text \<open>
  \<open>finalize_record\<close> mutates the record and the list of warnings and returns the record,
  whose \<open>warnings\<close> field is that list. Its three blocks after the two validators are
  given a name each: the inference of the net weight, the consistency check, and the
  confidence score before it is clamped.
\<close>

definition infer_net :: "ParsedRecord \<Rightarrow> Warning list \<Rightarrow> ParsedRecord \<times> Warning list" where
  "infer_net r ws =
    (if net_weight_kg r = None \<and> truthy_float (gross_weight_kg r)
          \<and> truthy_float (tare_weight_kg r)
     then (r\<lparr>net_weight_kg := Some (the (gross_weight_kg r) - the (tare_weight_kg r))\<rparr>,
           add_warning ws (ascii ''net_inferred_from_gross_tare'') None None None)
     else (r, ws))"

definition check_net_mismatch :: "ParsedRecord \<Rightarrow> Warning list \<Rightarrow> Warning list" where
  "check_net_mismatch r ws =
    (if net_weight_kg r \<noteq> None \<and> gross_weight_kg r \<noteq> None \<and> tare_weight_kg r \<noteq> None
     then (if \<bar>the (gross_weight_kg r) - the (tare_weight_kg r) - the (net_weight_kg r)\<bar>
                > NET_WEIGHT_TOLERANCE_KG
           then add_warning ws (ascii ''net_mismatch'') None None None
           else ws)
     else ws)"

definition confidence_score :: "ParsedRecord \<Rightarrow> Warning list \<Rightarrow> real" where
  "confidence_score r ws =
    (let c0 = 1;
         c1 = (if has_warning ws (ascii ''gross_inferred_from_time_weight'')
               then c0 - LABEL_INFERENCE else c0);
         c2 = (if has_warning ws (ascii ''tare_inferred_from_time_weight'')
               then c1 - LABEL_INFERENCE else c1);
         c3 = (if has_warning ws (ascii ''net_inferred_from_gross_tare'')
               then c2 - NET_CALC_INFERENCE else c2);
         c4 = (if has_warning ws (ascii ''net_mismatch'') then c3 - LOGIC_MISMATCH else c3);
         c5 = (if partner_name r = None then c4 - FIELD_MISSING else c4);
         c6 = (if item_name r = None then c5 - FIELD_MISSING else c5);
         c7 = (if timestamp r = None then c6 - FIELD_MISSING else c6)
     in c7)"

definition finalize_record :: "ParsedRecord \<Rightarrow> Warning list \<Rightarrow> ParsedRecord" where
  "finalize_record record0 warnings0 =
    (let ws1 = validate_weights record0 warnings0;
         ws2 = validate_time_order record0 ws1;
         (record1, ws3) = infer_net record0 ws2;
         ws4 = check_net_mismatch record1 ws3
     in record1\<lparr>warnings := ws4,
                 parse_confidence := max 0 (min 1 (confidence_score record1 ws4))\<rparr>)"

section \<open>Auxiliary definitions for the statements\<close>

text \<open>The warning that \<open>add_warning\<close> builds before it looks for a duplicate, and the
  test for a warning with a given key.\<close>

definition new_warning :: "pystr \<Rightarrow> pydict option \<Rightarrow> WarningSeverity option \<Rightarrow> pystr option \<Rightarrow> Warning" where
  "new_warning code context severity message =
    (let context0 = (case context of None \<Rightarrow> [] | Some c \<Rightarrow> c);
         dflt = default_warning_info code context0;
         standardized = standardize_warning_code code;
         context1 = (if standardized \<noteq> code
                     then dict_setdefault context0 (ascii ''legacy_code'') (CStr code)
                     else context0)
     in \<lparr>wcode = standardized,
         wseverity = (case severity of Some s \<Rightarrow> s | None \<Rightarrow> fst dflt),
         wmessage = (case message of
                       Some m \<Rightarrow> (if m \<noteq> [] then [MText m] else snd dflt)
                     | None \<Rightarrow> snd dflt),
         wcontext = (if context1 = [] then None else Some context1)\<rparr>)"

definition has_key :: "Warning list \<Rightarrow> pystr \<times> pydict option \<Rightarrow> bool" where
  "has_key ws k = list_ex (\<lambda>w. warning_key w = k) ws"

text \<open>Two concrete records: one with a zero tare weight and no net weight, one complete.\<close>

definition rec_zero_tare :: ParsedRecord where
  "rec_zero_tare = empty_record\<lparr>gross_weight_kg := Some 200000, tare_weight_kg := Some 0\<rparr>"

definition rec_complete :: ParsedRecord where
  "rec_complete = empty_record\<lparr>partner_name := Some (ascii ''ACME''), item_name := Some (ascii ''sand''),
      timestamp := Some (ascii ''2026-02-02 11:55:35''), gross_weight_kg := Some 1500,
      tare_weight_kg := Some 1200, net_weight_kg := Some 300\<rparr>"

text \<open>The two warnings of the weight range check, as \<open>add_warning\<close> builds them, and the
  set of warnings that one weight field calls for.\<close>

definition negative_weight_warning :: "pystr \<Rightarrow> real \<Rightarrow> Warning" where
  "negative_weight_warning field v =
     \<lparr>wcode = ascii ''VAL-CHK-004'', wseverity = ERROR,
      wmessage = [MText msg_negative_pre, MVal (CStr field)],
      wcontext = Some [(ascii ''field'', CStr field), (ascii ''value'', CNum v),
                       (ascii ''legacy_code'', CStr (ascii ''negative_weight''))]\<rparr>"

definition weight_exceeds_warning :: "pystr \<Rightarrow> real \<Rightarrow> Warning" where
  "weight_exceeds_warning field v =
     \<lparr>wcode = ascii ''VAL-CHK-005'', wseverity = WARN,
      wmessage = [MText msg_exceeds_pre, MVal (CStr field)],
      wcontext = Some [(ascii ''field'', CStr field), (ascii ''value'', CNum v),
                       (ascii ''legacy_code'', CStr (ascii ''weight_exceeds_limit''))]\<rparr>"

definition emitted_for :: "pystr \<times> real option \<Rightarrow> Warning set" where
  "emitted_for fv = (case snd fv of None \<Rightarrow> {}
      | Some v \<Rightarrow> (if v < 0 then {negative_weight_warning (fst fv) v} else {}) \<union>
                  (if v > 100000 then {weight_exceeds_warning (fst fv) v} else {}))"

text \<open>A record with a gross weight above the limit and a negative tare weight.\<close>

definition rec_extreme :: ParsedRecord where
  "rec_extreme = empty_record\<lparr>gross_weight_kg := Some 200000, tare_weight_kg := Some (-5)\<rparr>"

section \<open>Properties\<close>

subsection \<open>Adding and finding warnings\<close>

lemma add_warning_eq:
  "add_warning ws code ctx sev msg =
     (if has_key ws (warning_key (new_warning code ctx sev msg)) then ws
      else ws @ [new_warning code ctx sev msg])"
  by (simp add: add_warning_def new_warning_def has_key_def Let_def list_all_iff list_ex_iff)

lemma warning_key_new_indep:
  "warning_key (new_warning code ctx sev msg) = warning_key (new_warning code ctx sev' msg')"
  by (simp add: new_warning_def warning_key_def Let_def)

lemma has_key_append: "has_key (ws @ [w]) k = (has_key ws k \<or> warning_key w = k)"
  by (auto simp: has_key_def list_ex_iff)

lemma add_warning_has_key:
  "has_key (add_warning ws code ctx sev msg) (warning_key (new_warning code ctx sev' msg'))"
  using warning_key_new_indep[of code ctx sev msg sev' msg']
  by (simp add: add_warning_eq has_key_append)

lemma add_warning_idem:
  "add_warning (add_warning ws code ctx sev msg) code ctx sev' msg' = add_warning ws code ctx sev msg"
  using add_warning_has_key[of ws code ctx sev msg sev' msg']
  by (subst add_warning_eq) simp

lemma add_warning_noop:
  "has_key ws (warning_key (new_warning code ctx sev msg)) \<Longrightarrow> add_warning ws code ctx sev msg = ws"
  by (simp add: add_warning_eq)

lemma count_key_add:
  "length (filter (\<lambda>w. warning_key w = warning_key (new_warning code ctx sev msg)) (add_warning ws code ctx sev msg))
   = (if has_key ws (warning_key (new_warning code ctx sev msg))
      then length (filter (\<lambda>w. warning_key w = warning_key (new_warning code ctx sev msg)) ws) else 1)"
  by (auto simp: add_warning_eq has_key_def list_ex_iff filter_empty_conv)

lemma add_warning_distinct:
  "distinct (map warning_key ws) \<Longrightarrow> distinct (map warning_key (add_warning ws code ctx sev msg))"
  by (auto simp: add_warning_eq has_key_def list_ex_iff)



lemma set_add_warning: "set ws \<subseteq> set (add_warning ws code ctx sev msg)"
  by (auto simp: add_warning_eq)

lemma has_key_mono: "set ws \<subseteq> set ws' \<Longrightarrow> has_key ws k \<Longrightarrow> has_key ws' k"
  by (auto simp: has_key_def list_ex_iff)

lemma std_net_inferred: "standardize_warning_code (ascii ''net_inferred_from_gross_tare'') = ascii ''VAL-CHK-002''"
  by code_simp
lemma std_net_mismatch: "standardize_warning_code (ascii ''net_mismatch'') = ascii ''VAL-CHK-001''"
  by code_simp

lemma has_warning_iff:
  "has_warning ws code \<longleftrightarrow>
     (\<exists>w \<in> set ws. wcode w = standardize_warning_code code \<or>
        (case wcontext w of None \<Rightarrow> False
         | Some c \<Rightarrow> c \<noteq> [] \<and> dict_get c (ascii ''legacy_code'') = Some (CStr code)))"
  by (induction ws) auto

lemma wcode_new_warning: "wcode (new_warning code ctx sev msg) = standardize_warning_code code"
  by (simp add: new_warning_def Let_def)

lemma has_key_code: "has_key ws (warning_key w) \<Longrightarrow> \<exists>w' \<in> set ws. wcode w' = wcode w"
  by (auto simp: has_key_def list_ex_iff warning_key_def split: option.splits)

lemma has_warning_add: "has_warning (add_warning ws code ctx sev msg) code"
proof -
  have "has_key (add_warning ws code ctx sev msg) (warning_key (new_warning code ctx sev msg))"
    by (rule add_warning_has_key)
  then obtain w' where "w' \<in> set (add_warning ws code ctx sev msg)" "wcode w' = standardize_warning_code code"
    using has_key_code[of "add_warning ws code ctx sev msg" "new_warning code ctx sev msg"]
    by (auto simp: wcode_new_warning)
  then show ?thesis unfolding has_warning_iff by blast
qed

lemma has_warning_mono: "set ws \<subseteq> set ws' \<Longrightarrow> has_warning ws code \<Longrightarrow> has_warning ws' code"
  unfolding has_warning_iff by blast



lemma fin_fields:
  "warnings (finalize_record r ws) = check_net_mismatch (fst (infer_net r (validate_time_order r (validate_weights r ws)))) (snd (infer_net r (validate_time_order r (validate_weights r ws))))"
  "parse_confidence (finalize_record r ws) = max 0 (min 1 (confidence_score (fst (infer_net r (validate_time_order r (validate_weights r ws)))) (warnings (finalize_record r ws))))"
  "partner_name (finalize_record r ws) = partner_name r"
  "item_name (finalize_record r ws) = item_name r"
  "timestamp (finalize_record r ws) = timestamp r"
  "gross_weight_kg (finalize_record r ws) = gross_weight_kg r"
  "tare_weight_kg (finalize_record r ws) = tare_weight_kg r"
  "net_weight_kg (finalize_record r ws) = net_weight_kg (fst (infer_net r (validate_time_order r (validate_weights r ws))))"
  by (simp_all add: finalize_record_def Let_def split_beta infer_net_def)

lemma infer_net_fields:
  "partner_name (fst (infer_net r ws)) = partner_name r"
  "item_name (fst (infer_net r ws)) = item_name r"
  "timestamp (fst (infer_net r ws)) = timestamp r"
  by (simp_all add: infer_net_def)

lemma conf_bounds:
  "0 \<le> parse_confidence (finalize_record r ws) \<and> parse_confidence (finalize_record r ws) \<le> 1"
  by (simp add: fin_fields(2))

lemma conf_one:
  assumes "partner_name (finalize_record r ws) \<noteq> None" "item_name (finalize_record r ws) \<noteq> None"
     "timestamp (finalize_record r ws) \<noteq> None"
     "\<not> has_warning (warnings (finalize_record r ws)) (ascii ''gross_inferred_from_time_weight'')"
     "\<not> has_warning (warnings (finalize_record r ws)) (ascii ''tare_inferred_from_time_weight'')"
     "\<not> has_warning (warnings (finalize_record r ws)) (ascii ''net_inferred_from_gross_tare'')"
     "\<not> has_warning (warnings (finalize_record r ws)) (ascii ''net_mismatch'')"
  shows "parse_confidence (finalize_record r ws) = 1"
proof -
  have "confidence_score (fst (infer_net r (validate_time_order r (validate_weights r ws)))) (warnings (finalize_record r ws)) = 1"
    using assms by (auto simp: confidence_score_def Let_def fin_fields(3-5) infer_net_fields)
  then show ?thesis by (simp add: fin_fields(2))
qed

lemma has_key_set: "has_key ws k \<longleftrightarrow> k \<in> set (map warning_key ws)"
  by (auto simp: has_key_def list_ex_iff)

lemma count_distinct_key:
  "distinct (map f xs) \<Longrightarrow> k \<in> set (map f xs) \<Longrightarrow> length (filter (\<lambda>w. f w = k) xs) = 1"
proof (induction xs)
  case Nil
  then show ?case by simp
next
  case (Cons x xs)
  show ?case
  proof (cases "f x = k")
    case True
    with Cons.prems have "filter (\<lambda>w. f w = k) xs = []"
      by (force simp: filter_empty_conv image_iff)
    with True show ?thesis by simp
  next
    case False
    with Cons show ?thesis by auto
  qed
qed

subsection \<open>The finalizer\<close>

text \<open>
  Claim C1 (net-weight law). The finalizer tests the gross and the tare weight for
  truthiness, so a weight that is set to 0.0 counts as unset: the record of
  \<open>test_extreme_weight_values\<close>, with a gross weight of 200000 kg, a tare weight of 0 kg
  and no net weight, leaves \<open>finalize_record\<close> without a net weight and without the
  warning \<open>net_inferred_from_gross_tare\<close>.
\<close>

theorem finalize_net_zero_tare:
  "gross_weight_kg rec_zero_tare = Some 200000 \<and> tare_weight_kg rec_zero_tare = Some 0 \<and>
   net_weight_kg rec_zero_tare = None \<and>
   net_weight_kg (finalize_record rec_zero_tare []) = None \<and>
   \<not> has_warning (warnings (finalize_record rec_zero_tare [])) (ascii ''net_inferred_from_gross_tare'')"
  by code_simp

text \<open>
  Claim C4 (confidence bounds). The confidence of a finalized record lies between 0 and
  1, and it is exactly 1 when partner name, item name and timestamp are set and none of
  the four penalised warnings is present.
\<close>

theorem finalize_confidence:
  "0 \<le> parse_confidence (finalize_record r ws) \<and> parse_confidence (finalize_record r ws) \<le> 1 \<and>
   (partner_name (finalize_record r ws) \<noteq> None \<and> item_name (finalize_record r ws) \<noteq> None
     \<and> timestamp (finalize_record r ws) \<noteq> None
     \<and> \<not> has_warning (warnings (finalize_record r ws)) (ascii ''gross_inferred_from_time_weight'')
     \<and> \<not> has_warning (warnings (finalize_record r ws)) (ascii ''tare_inferred_from_time_weight'')
     \<and> \<not> has_warning (warnings (finalize_record r ws)) (ascii ''net_inferred_from_gross_tare'')
     \<and> \<not> has_warning (warnings (finalize_record r ws)) (ascii ''net_mismatch'')
    \<longrightarrow> parse_confidence (finalize_record r ws) = 1)"
  using conf_bounds[of r ws] conf_one[of r ws] by blast

theorem finalize_confidence_witness:
  "partner_name (finalize_record rec_complete []) \<noteq> None \<and> item_name (finalize_record rec_complete []) \<noteq> None
     \<and> timestamp (finalize_record rec_complete []) \<noteq> None
     \<and> \<not> has_warning (warnings (finalize_record rec_complete [])) (ascii ''gross_inferred_from_time_weight'')
     \<and> \<not> has_warning (warnings (finalize_record rec_complete [])) (ascii ''tare_inferred_from_time_weight'')
     \<and> \<not> has_warning (warnings (finalize_record rec_complete [])) (ascii ''net_inferred_from_gross_tare'')
     \<and> \<not> has_warning (warnings (finalize_record rec_complete [])) (ascii ''net_mismatch'')
     \<and> parse_confidence (finalize_record rec_complete []) = 1"
proof -
  have h: "partner_name (finalize_record rec_complete []) \<noteq> None \<and> item_name (finalize_record rec_complete []) \<noteq> None
     \<and> timestamp (finalize_record rec_complete []) \<noteq> None
     \<and> \<not> has_warning (warnings (finalize_record rec_complete [])) (ascii ''gross_inferred_from_time_weight'')
     \<and> \<not> has_warning (warnings (finalize_record rec_complete [])) (ascii ''tare_inferred_from_time_weight'')
     \<and> \<not> has_warning (warnings (finalize_record rec_complete [])) (ascii ''net_inferred_from_gross_tare'')
     \<and> \<not> has_warning (warnings (finalize_record rec_complete [])) (ascii ''net_mismatch'')"
    by code_simp
  with finalize_confidence[of rec_complete "[]"] show ?thesis by blast
qed

subsection \<open>Warnings\<close>

text \<open>
  Claim C6 (deduplication). Adding a warning whose key, the code and the sorted context
  items, is already in the list leaves the list as it is; adding the same code and
  context a second time changes nothing; and in a list with distinct keys the key is
  then held by exactly one warning.
\<close>

theorem add_warning_dedup:
  "(has_key ws (warning_key (new_warning code ctx sev msg)) \<longrightarrow> add_warning ws code ctx sev msg = ws)
   \<and> add_warning (add_warning ws code ctx sev msg) code ctx sev' msg' = add_warning ws code ctx sev msg
   \<and> (distinct (map warning_key ws) \<longrightarrow>
        length (filter (\<lambda>w. warning_key w = warning_key (new_warning code ctx sev msg))
                 (add_warning (add_warning ws code ctx sev msg) code ctx sev' msg')) = 1)"
proof -
  have a: "distinct (map warning_key ws) \<Longrightarrow>
        length (filter (\<lambda>w. warning_key w = warning_key (new_warning code ctx sev msg))
                 (add_warning ws code ctx sev msg)) = 1"
  proof -
    assume d: "distinct (map warning_key ws)"
    let ?k = "warning_key (new_warning code ctx sev msg)"
    have "has_key ws ?k \<Longrightarrow> length (filter (\<lambda>w. warning_key w = ?k) ws) = 1"
    proof -
      assume "has_key ws ?k"
      then have "?k \<in> set (map warning_key ws)" by (simp only: has_key_set)
      with d show ?thesis by (rule count_distinct_key)
    qed
    then show ?thesis by (auto simp: count_key_add)
  qed
  show ?thesis using a by (simp add: add_warning_idem add_warning_noop)
qed

theorem add_warning_dedup_witness:
  "has_key (add_warning [] (ascii ''net_mismatch'') None None None)
     (warning_key (new_warning (ascii ''net_mismatch'') None None None))
   \<and> distinct (map warning_key (add_warning [] (ascii ''net_mismatch'') None None None))
   \<and> add_warning (add_warning [] (ascii ''net_mismatch'') None None None)
        (ascii ''net_mismatch'') None None None
      = add_warning [] (ascii ''net_mismatch'') None None None
   \<and> length (filter (\<lambda>w. warning_key w
                          = warning_key (new_warning (ascii ''net_mismatch'') None None None))
        (add_warning (add_warning (add_warning [] (ascii ''net_mismatch'') None None None)
           (ascii ''net_mismatch'') None None None) (ascii ''net_mismatch'') None (Some INFO) None)) = 1"
proof -
  have h: "has_key (add_warning [] (ascii ''net_mismatch'') None None None)
             (warning_key (new_warning (ascii ''net_mismatch'') None None None))
           \<and> distinct (map warning_key (add_warning [] (ascii ''net_mismatch'') None None None))"
    by code_simp
  with add_warning_dedup[of "add_warning [] (ascii ''net_mismatch'') None None None"
         "ascii ''net_mismatch''" None None None "Some INFO" None]
  show ?thesis by blast
qed

subsection \<open>The weight range check\<close>

lemma std_negative: "standardize_warning_code (ascii ''negative_weight'') = ascii ''VAL-CHK-004''"
  by code_simp

lemma std_exceeds: "standardize_warning_code (ascii ''weight_exceeds_limit'') = ascii ''VAL-CHK-005''"
  by code_simp

lemma ne1: "ascii ''VAL-CHK-004'' \<noteq> ascii ''negative_weight''" by code_simp

lemma ne2: "ascii ''VAL-CHK-005'' \<noteq> ascii ''weight_exceeds_limit''" by code_simp

lemma keys_ne: "ascii ''legacy_code'' \<noteq> ascii ''field''" "ascii ''legacy_code'' \<noteq> ascii ''value''"
  by code_simp+

lemma dflt_negative:
  "default_warning_info (ascii ''negative_weight'') [(ascii ''field'', CStr f), (ascii ''value'', CNum v)]
   = (ERROR, [MText msg_negative_pre, MVal (CStr f)])"
  by (simp add: default_warning_info_def dict_get_def ascii_def)

lemma dflt_exceeds:
  "default_warning_info (ascii ''weight_exceeds_limit'') [(ascii ''field'', CStr f), (ascii ''value'', CNum v)]
   = (WARN, [MText msg_exceeds_pre, MVal (CStr f)])"
  by (simp add: default_warning_info_def dict_get_def ascii_def)

lemma new_negative:
  "new_warning (ascii ''negative_weight'') (Some [(ascii ''field'', CStr f), (ascii ''value'', CNum v)]) (Some ERROR) None
   = negative_weight_warning f v"
  by (simp add: new_warning_def Let_def std_negative ne1 dflt_negative dict_setdefault_def keys_ne
        negative_weight_warning_def)

lemma new_exceeds:
  "new_warning (ascii ''weight_exceeds_limit'') (Some [(ascii ''field'', CStr f), (ascii ''value'', CNum v)]) (Some WARN) None
   = weight_exceeds_warning f v"
  by (simp add: new_warning_def Let_def std_exceeds ne2 dflt_exceeds dict_setdefault_def keys_ne
        weight_exceeds_warning_def)

lemma check_weight_eq:
  "check_weight ws (f, Some v) =
     (if v < 0 then add_warning ws (ascii ''negative_weight'')
                      (Some [(ascii ''field'', CStr f), (ascii ''value'', CNum v)]) (Some ERROR) None
      else if v > 100000 then add_warning ws (ascii ''weight_exceeds_limit'')
                      (Some [(ascii ''field'', CStr f), (ascii ''value'', CNum v)]) (Some WARN) None
      else ws)"
  by (simp add: check_weight_def MIN_WEIGHT_KG_def MAX_WEIGHT_KG_def Let_def)

lemma set_add_warning_new:
  "set (add_warning ws code ctx sev msg) \<subseteq> insert (new_warning code ctx sev msg) (set ws)"
  by (auto simp: add_warning_eq)

lemma check_weight_sub: "set ws \<subseteq> set (check_weight ws fv)"
  by (cases fv; cases "snd fv") (auto simp: check_weight_eq check_weight_def dest: set_add_warning[THEN subsetD])

lemma check_weight_new: "set (check_weight ws fv) \<subseteq> set ws \<union> emitted_for fv"
proof (cases fv)
  case (Pair f ov)
  show ?thesis
  proof (cases ov)
    case None
    with Pair show ?thesis by (simp add: check_weight_def)
  next
    case (Some v)
    with Pair show ?thesis
      using set_add_warning_new[of ws "ascii ''negative_weight''" "Some [(ascii ''field'', CStr f), (ascii ''value'', CNum v)]" "Some ERROR" None]
            set_add_warning_new[of ws "ascii ''weight_exceeds_limit''" "Some [(ascii ''field'', CStr f), (ascii ''value'', CNum v)]" "Some WARN" None]
      by (auto simp: check_weight_eq emitted_for_def new_negative new_exceeds)
  qed
qed

lemma check_weight_key:
  "w \<in> emitted_for fv \<Longrightarrow> has_key (check_weight ws fv) (warning_key w)"
proof (cases fv)
  case (Pair f ov)
  assume w: "w \<in> emitted_for fv"
  show ?thesis
  proof (cases ov)
    case None
    with Pair w show ?thesis by (simp add: emitted_for_def)
  next
    case (Some v)
    with Pair w show ?thesis
      using add_warning_has_key[of ws "ascii ''negative_weight''" "Some [(ascii ''field'', CStr f), (ascii ''value'', CNum v)]" "Some ERROR" None "Some ERROR" None]
            add_warning_has_key[of ws "ascii ''weight_exceeds_limit''" "Some [(ascii ''field'', CStr f), (ascii ''value'', CNum v)]" "Some WARN" None "Some WARN" None]
      by (auto simp: check_weight_eq emitted_for_def new_negative new_exceeds split: if_splits)
  qed
qed

lemma foldl_check_sub: "set ws \<subseteq> set (foldl check_weight ws fs)"
proof (induction fs arbitrary: ws)
  case Nil show ?case by simp
next
  case (Cons a fs)
  show ?case using Cons[of "check_weight ws a"] check_weight_sub[of ws a] by auto
qed

lemma foldl_check_new: "set (foldl check_weight ws fs) \<subseteq> set ws \<union> (\<Union>fv \<in> set fs. emitted_for fv)"
proof (induction fs arbitrary: ws)
  case Nil show ?case by simp
next
  case (Cons a fs)
  show ?case using Cons[of "check_weight ws a"] check_weight_new[of ws a] by auto
qed

lemma foldl_check_key:
  "fv \<in> set fs \<Longrightarrow> w \<in> emitted_for fv \<Longrightarrow> has_key (foldl check_weight ws fs) (warning_key w)"
proof (induction fs arbitrary: ws)
  case Nil then show ?case by simp
next
  case (Cons a fs)
  show ?case
  proof (cases "fv = a")
    case True
    with Cons.prems have "has_key (check_weight ws a) (warning_key w)" by (simp add: check_weight_key)
    then show ?thesis using foldl_check_sub[of "check_weight ws a" fs] has_key_mono by auto
  next
    case False
    with Cons show ?thesis by auto
  qed
qed

lemma names_distinct:
  "distinct [ascii ''gross_weight_kg'', ascii ''tare_weight_kg'', ascii ''net_weight_kg'', ascii ''deduction_weight_kg'']"
  by code_simp

lemma weight_fields_fun:
  "(f, a) \<in> set (weight_fields r) \<Longrightarrow> (f, b) \<in> set (weight_fields r) \<Longrightarrow> a = b"
  using names_distinct by (auto simp: weight_fields_def)

lemma codes_ne: "ascii ''VAL-CHK-004'' \<noteq> ascii ''VAL-CHK-005''" by code_simp

lemma neg_in_emitted:
  "negative_weight_warning f v \<in> emitted_for fv \<Longrightarrow> fst fv = f \<and> snd fv = Some v \<and> v < 0"
  using codes_ne
  by (auto simp: emitted_for_def negative_weight_warning_def weight_exceeds_warning_def
           split: option.splits if_splits)

lemma exc_in_emitted:
  "weight_exceeds_warning f v \<in> emitted_for fv \<Longrightarrow> fst fv = f \<and> snd fv = Some v \<and> v > 100000"
  using codes_ne
  by (auto simp: emitted_for_def negative_weight_warning_def weight_exceeds_warning_def
           split: option.splits if_splits)

lemma validate_weights_new:
  "set (validate_weights r ws) \<subseteq> set ws \<union> (\<Union>fv \<in> set (weight_fields r). emitted_for fv)"
  unfolding validate_weights_def by (rule foldl_check_new)

lemma new_negative_field:
  assumes "negative_weight_warning f v \<in> set (validate_weights r ws)"
      and "negative_weight_warning f v \<notin> set ws"
  shows "(f, Some v) \<in> set (weight_fields r) \<and> v < 0"
proof -
  from assms validate_weights_new[of r ws]
  have "negative_weight_warning f v \<in> (\<Union>fv \<in> set (weight_fields r). emitted_for fv)" by blast
  then obtain fv where fv: "fv \<in> set (weight_fields r)" "negative_weight_warning f v \<in> emitted_for fv"
    by blast
  from neg_in_emitted[OF fv(2)] have "fv = (f, Some v)" "v < 0"
    by (simp_all add: prod_eq_iff)
  with fv(1) show ?thesis by simp
qed

lemma new_exceeds_field:
  assumes "weight_exceeds_warning f v \<in> set (validate_weights r ws)"
      and "weight_exceeds_warning f v \<notin> set ws"
  shows "(f, Some v) \<in> set (weight_fields r) \<and> v > 100000"
proof -
  from assms validate_weights_new[of r ws]
  have "weight_exceeds_warning f v \<in> (\<Union>fv \<in> set (weight_fields r). emitted_for fv)" by blast
  then obtain fv where fv: "fv \<in> set (weight_fields r)" "weight_exceeds_warning f v \<in> emitted_for fv"
    by blast
  from exc_in_emitted[OF fv(2)] have "fv = (f, Some v)" "v > 100000"
    by (simp_all add: prod_eq_iff)
  with fv(1) show ?thesis by simp
qed

lemma extreme_gross_field: "(ascii ''gross_weight_kg'', Some 200000) \<in> set (weight_fields rec_extreme)"
  by (simp add: weight_fields_def rec_extreme_def empty_record_def)

lemma extreme_tare_field: "(ascii ''tare_weight_kg'', Some (-5)) \<in> set (weight_fields rec_extreme)"
  by (simp add: weight_fields_def rec_extreme_def empty_record_def)

lemma extreme_gross_emitted: "weight_exceeds_warning (ascii ''gross_weight_kg'') 200000
        \<in> emitted_for (ascii ''gross_weight_kg'', Some 200000)"
  by (simp add: emitted_for_def)

lemma extreme_tare_emitted: "negative_weight_warning (ascii ''tare_weight_kg'') (-5)
        \<in> emitted_for (ascii ''tare_weight_kg'', Some (-5))"
  by (simp add: emitted_for_def)

text \<open>Claim C5, amended. \<open>validate_weights\<close> keeps every warning it was given and adds
  nothing but the warnings of the range check: for a weight field that is set to \<open>v\<close>, the
  warning \<open>negative_weight\<close> (standard code VAL-CHK-004, severity ERROR, context field and
  value) when \<open>v < 0\<close>, and the warning \<open>weight_exceeds_limit\<close> (VAL-CHK-005, severity WARN)
  when \<open>v > 100000\<close>. Each warning called for is in the result, or a warning with the same
  code and context was there already. The two warnings are never both called for by one
  field, since no value is below 0 and above 100000.\<close>

theorem validate_weights_range:
  "set ws \<subseteq> set (validate_weights r ws)
   \<and> set (validate_weights r ws) \<subseteq> set ws \<union> (\<Union>fv \<in> set (weight_fields r). emitted_for fv)
   \<and> (\<forall>fv \<in> set (weight_fields r). \<forall>w \<in> emitted_for fv.
         has_key (validate_weights r ws) (warning_key w))
   \<and> \<not> (negative_weight_warning (fst fv) v \<in> emitted_for fv
          \<and> weight_exceeds_warning (fst fv) v' \<in> emitted_for fv)"
proof -
  have "\<not> (negative_weight_warning (fst fv) v \<in> emitted_for fv
          \<and> weight_exceeds_warning (fst fv) v' \<in> emitted_for fv)"
    using neg_in_emitted[of "fst fv" v fv] exc_in_emitted[of "fst fv" v' fv] by auto
  then show ?thesis
    unfolding validate_weights_def
    using foldl_check_sub[of ws "weight_fields r"] foldl_check_new[of ws "weight_fields r"]
          foldl_check_key[of _ "weight_fields r" _ ws]
    by blast
qed

theorem validate_weights_range_witness:
  "(ascii ''gross_weight_kg'', Some 200000) \<in> set (weight_fields rec_extreme)
   \<and> weight_exceeds_warning (ascii ''gross_weight_kg'') 200000
        \<in> emitted_for (ascii ''gross_weight_kg'', Some 200000)
   \<and> (ascii ''tare_weight_kg'', Some (-5)) \<in> set (weight_fields rec_extreme)
   \<and> negative_weight_warning (ascii ''tare_weight_kg'') (-5)
        \<in> emitted_for (ascii ''tare_weight_kg'', Some (-5))
   \<and> has_key (validate_weights rec_extreme [])
        (warning_key (weight_exceeds_warning (ascii ''gross_weight_kg'') 200000))
   \<and> has_key (validate_weights rec_extreme [])
        (warning_key (negative_weight_warning (ascii ''tare_weight_kg'') (-5)))"
  using validate_weights_range[of "[]" rec_extreme]
        extreme_gross_field extreme_tare_field extreme_gross_emitted extreme_tare_emitted
  by blast

text \<open>Claim C5 as stated says that both warnings may fire for the same field. They cannot:
  no record and no warning list make \<open>validate_weights\<close> add a \<open>negative_weight\<close> warning
  and a \<open>weight_exceeds_limit\<close> warning for the same field name.\<close>

theorem validate_weights_not_both:
  "\<not> (\<exists>r ws f v v'.
        negative_weight_warning f v \<in> set (validate_weights r ws) - set ws
      \<and> weight_exceeds_warning f v' \<in> set (validate_weights r ws) - set ws)"
proof
  assume "\<exists>r ws f v v'.
        negative_weight_warning f v \<in> set (validate_weights r ws) - set ws
      \<and> weight_exceeds_warning f v' \<in> set (validate_weights r ws) - set ws"
  then obtain r ws f v v' where
    n: "negative_weight_warning f v \<in> set (validate_weights r ws)" "negative_weight_warning f v \<notin> set ws" and
    e: "weight_exceeds_warning f v' \<in> set (validate_weights r ws)" "weight_exceeds_warning f v' \<notin> set ws"
    by blast
  from new_negative_field[OF n] have a: "(f, Some v) \<in> set (weight_fields r)" "v < 0" by simp_all
  from new_exceeds_field[OF e] have b: "(f, Some v') \<in> set (weight_fields r)" "v' > 100000" by simp_all
  from weight_fields_fun[OF a(1) b(1)] a(2) b(2) show False by simp
qed

end
